theory Spec2Isabelle
  imports Main "HOL-Library.AList"
begin

section \<open>Python values, exceptions and dictionaries\<close>

text \<open>
  The exceptions that the handlers of \<^verbatim>\<open>backend.py\<close> can meet. The first four are
  raised by the interpreter itself (an unbound name, a non-string handed to
  \<^verbatim>\<open>str.join\<close>, a missing dictionary key, an attribute of \<^verbatim>\<open>None\<close>);
  \<open>KeyError\<close> carries the key, the other three their message.
  \<open>OtherException\<close> stands for any other subclass of \<^verbatim>\<open>Exception\<close> raised by a
  collaborator (pygdbmi, the operating system), with the name of its class and its
  message; \<open>BaseExceptionOnly\<close>, with the same two fields, for an exception that is not
  a subclass of \<^verbatim>\<open>Exception\<close>, which \<^verbatim>\<open>except Exception\<close> does not catch.
\<close>

datatype pyexc =
    NameError string
  | TypeError string
  | KeyError string
  | AttributeError string
  | OtherException string string
  | BaseExceptionOnly string string

fun is_Exception :: "pyexc \<Rightarrow> bool" where
  "is_Exception (BaseExceptionOnly _ _) = False"
| "is_Exception _ = True"

text \<open>\<^verbatim>\<open>type(e).__name__\<close>.\<close>

fun class_name :: "pyexc \<Rightarrow> string" where
  "class_name (NameError _) = ''NameError''"
| "class_name (TypeError _) = ''TypeError''"
| "class_name (KeyError _) = ''KeyError''"
| "class_name (AttributeError _) = ''AttributeError''"
| "class_name (OtherException c _) = c"
| "class_name (BaseExceptionOnly c _) = c"

text \<open>
  \<^verbatim>\<open>repr\<close> of a string of ASCII characters: double quotes when the text holds a
  single quote and no double quote, single quotes otherwise; the backslash and the
  chosen quote are escaped, tab, newline and carriage return are written
  \<^verbatim>\<open>\t\<close>, \<^verbatim>\<open>\n\<close>, \<^verbatim>\<open>\r\<close>, and the other control characters
  \<^verbatim>\<open>\xNN\<close>.
\<close>

definition hex_digit :: "nat \<Rightarrow> char" where
  "hex_digit n = (if n < 10 then char_of (48 + n) else char_of (87 + n))"

definition repr_char :: "char \<Rightarrow> char \<Rightarrow> string" where
  "repr_char q c =
     (let n = (of_char c :: nat) in
      if c = CHR 0x5C then [CHR 0x5C, CHR 0x5C]
      else if c = q then [CHR 0x5C, q]
      else if n = 9 then [CHR 0x5C, CHR ''t'']
      else if n = 10 then [CHR 0x5C, CHR ''n'']
      else if n = 13 then [CHR 0x5C, CHR ''r'']
      else if n < 32 \<or> n = 127
           then [CHR 0x5C, CHR ''x'', hex_digit (n div 16), hex_digit (n mod 16)]
      else [c])"

definition py_repr :: "string \<Rightarrow> string" where
  "py_repr s =
     (let q = (if CHR 0x27 \<in> set s \<and> CHR 0x22 \<notin> set s then CHR 0x22 else CHR 0x27)
      in [q] @ concat (map (repr_char q) s) @ [q])"

text \<open>\<^verbatim>\<open>str(e)\<close>: the message; a \<^verbatim>\<open>KeyError\<close> prints the repr of its key.\<close>

fun str_exc :: "pyexc \<Rightarrow> string" where
  "str_exc (NameError m) = m"
| "str_exc (TypeError m) = m"
| "str_exc (KeyError k) = py_repr k"
| "str_exc (AttributeError m) = m"
| "str_exc (OtherException c m) = m"
| "str_exc (BaseExceptionOnly c m) = m"

text \<open>Reading the attribute \<open>a\<close> of \<^verbatim>\<open>None\<close>.\<close>

definition none_has_no_attribute :: "string \<Rightarrow> pyexc" where
  "none_has_no_attribute a =
     AttributeError ([CHR 0x27] @ ''NoneType'' @ [CHR 0x27] @ '' object has no attribute ''
                     @ [CHR 0x27] @ a @ [CHR 0x27])"

text \<open>The positional arguments that the source hands to \<^verbatim>\<open>dbprint\<close>.\<close>

datatype pyval = PStr string | PExc pyexc

text \<open>Decimal printing of an integer, for \<^verbatim>\<open>'%s' % pid\<close>.\<close>

fun str_nat :: "nat \<Rightarrow> string" where
  "str_nat n =
     (if n < 10 then [char_of (48 + n)]
      else str_nat (n div 10) @ [char_of (48 + n mod 10)])"

declare str_nat.simps [simp del]

definition str_int :: "int \<Rightarrow> string" where
  "str_int i = (if i < 0 then CHR ''-'' # str_nat (nat (- i)) else str_nat (nat i))"

text \<open>
  \<^verbatim>\<open>sep.join(args)\<close>: every item must be a \<^verbatim>\<open>str\<close>; the first item that is
  not raises \<^verbatim>\<open>TypeError\<close>, whose message (that of Python 3) names the position
  of the item and its class. \<open>str_join_from i\<close> joins items that start at position
  \<open>i\<close>.
\<close>

definition join_type_error :: "nat \<Rightarrow> pyexc \<Rightarrow> pyexc" where
  "join_type_error i e =
     TypeError (''sequence item '' @ str_nat i @ '': expected str instance, ''
                @ class_name e @ '' found'')"

fun str_join_from :: "nat \<Rightarrow> string \<Rightarrow> pyval list \<Rightarrow> pyexc + string" where
  "str_join_from i sep [] = Inr []"
| "str_join_from i sep (PExc e # rest) = Inl (join_type_error i e)"
| "str_join_from i sep [PStr s] = Inr s"
| "str_join_from i sep (PStr s # rest) =
     (case str_join_from (Suc i) sep rest of
        Inl e \<Rightarrow> Inl e
      | Inr t \<Rightarrow> Inr (s @ sep @ t))"

definition str_join :: "string \<Rightarrow> pyval list \<Rightarrow> pyexc + string" where
  "str_join sep args = str_join_from 0 sep args"

text \<open>
  A Python \<^verbatim>\<open>dict\<close> with string keys, as an association list with distinct keys
  in insertion order: \<^verbatim>\<open>d[k] = v\<close> overwrites in place or appends,
  \<^verbatim>\<open>d.pop(k)\<close> removes the entry, \<^verbatim>\<open>d.keys()\<close> and \<^verbatim>\<open>d.items()\<close>
  list the entries.
\<close>

type_synonym 'v dict = "(string \<times> 'v) list"

definition dict_keys :: "'v dict \<Rightarrow> string list" where
  "dict_keys d = map fst d"

definition dict_get :: "'v dict \<Rightarrow> string \<Rightarrow> 'v option" where
  "dict_get d k = map_of d k"

definition dict_set :: "'v dict \<Rightarrow> string \<Rightarrow> 'v \<Rightarrow> 'v dict" where
  "dict_set d k v = AList.update k v d"

definition dict_pop :: "'v dict \<Rightarrow> string \<Rightarrow> 'v dict" where
  "dict_pop d k = AList.delete k d"

section \<open>The collaborators: the debugger controller and the transport\<close>

text \<open>
  \<^verbatim>\<open>pygdbmi.GdbController\<close> is not part of the repository. The handlers use four
  things of it: the pid of its process, \<^verbatim>\<open>get_gdb_response\<close>, \<^verbatim>\<open>write\<close> and
  \<^verbatim>\<open>exit\<close>. The controller is modelled by what these calls will do:
  \<open>responses\<close> is the script of the outcomes of the successive polls (an exception,
  or the value returned), \<open>write_fault\<close> and \<open>exit_fault\<close> say whether
  \<^verbatim>\<open>write\<close> and \<^verbatim>\<open>exit\<close> raise, and \<open>written\<close> collects what was written.

  The value that one poll returns is kept opaque, as the source keeps it: the
  dispatcher only tests its truth value and forwards it verbatim.
\<close>

datatype response = NoResponse | Response string

fun truthy :: "response \<Rightarrow> bool" where
  "truthy NoResponse = False"
| "truthy (Response _) = True"

datatype cmd = CmdStr string | CmdList "string list"

record GdbController =
  pid :: int
  responses :: "(pyexc + response) list"
  write_fault :: "pyexc option"
  exit_fault :: "pyexc option"
  written :: "cmd list"

text \<open>
  \<^verbatim>\<open>gdb.get_gdb_response(timeout_sec=0, raise_error_on_timeout=False)\<close>: the next
  outcome of the script; with nothing queued the call returns a falsy value.
\<close>

definition get_gdb_response :: "GdbController \<Rightarrow> (pyexc + response) \<times> GdbController" where
  "get_gdb_response g =
     (case responses g of
        [] \<Rightarrow> (Inr NoResponse, g)
      | r # rs \<Rightarrow> (r, g\<lparr>responses := rs\<rparr>))"

text \<open>\<^verbatim>\<open>gdb.write(cmd, read_response=False)\<close>.\<close>

definition gdb_write :: "GdbController \<Rightarrow> cmd \<Rightarrow> pyexc option \<times> GdbController" where
  "gdb_write g c =
     (case write_fault g of
        Some e \<Rightarrow> (Some e, g)
      | None \<Rightarrow> (None, g\<lparr>written := written g @ [c]\<rparr>))"

text \<open>
  The constructor \<^verbatim>\<open>GdbController(gdb_path=..., gdb_args=...)\<close> spawns the process.
  Its outcome is a parameter of the model: a function of the number of earlier
  constructor calls, the path and the arguments, that returns the exception raised or
  the new controller.
\<close>

type_synonym spawner = "nat \<Rightarrow> string \<Rightarrow> string list \<Rightarrow> pyexc + GdbController"

text \<open>What \<^verbatim>\<open>emit(name, payload)\<close> sends: the event name and its payload.\<close>

datatype payload =
    JInt int
  | JResponse response
  | JDict "(string \<times> string) list"

type_synonym event = "string \<times> payload"

section \<open>The state of the server\<close>

text \<open>
  \<open>gdb_controllers\<close> and \<open>gdb_reader_thread\<close> are the two entries of
  \<^verbatim>\<open>_gdb_state\<close>; a value of the table is \<open>None\<close> for Python's \<^verbatim>\<open>None\<close>.
  \<open>DEFAULT_GDB_ARGS\<close> and \<open>DEFAULT_LLDB_ARGS\<close> are the module-level lists (Python
  lists are mutable, so they are part of the state). \<open>STARTUP_WITH_SHELL_OFF\<close> is
  \<open>None\<close> when the module never bound the name. \<open>config_LLDB\<close>, \<open>config_gdb_path\<close>
  and \<open>debug\<close> are \<^verbatim>\<open>app.config['LLDB']\<close>, \<^verbatim>\<open>app.config['gdb_path']\<close> and
  \<^verbatim>\<open>app.debug\<close>.

  The remaining fields record the effects on the outside: the lines printed, the events
  emitted with the room each one went to, the constructor calls made (path and
  arguments), the pids whose controller was asked to exit, and the number of calls of
  \<^verbatim>\<open>socketio.start_background_task\<close>.
\<close>

record world =
  gdb_controllers :: "GdbController option dict"
  gdb_reader_thread :: "nat option"
  DEFAULT_GDB_ARGS :: "string list"
  DEFAULT_LLDB_ARGS :: "string list"
  STARTUP_WITH_SHELL_OFF :: "bool option"
  config_LLDB :: bool
  config_gdb_path :: string
  debug :: bool
  stdout :: "string list"
  emitted :: "(string \<times> event) list"
  spawned :: "(string \<times> string list) list"
  exit_calls :: "int list"
  started :: nat

text \<open>
  A statement runs in a state and ends in a state, normally or with an exception;
  \<open>andThen\<close> is the semicolon: the second statement runs only when the first one did
  not raise.
\<close>

type_synonym outcome = "pyexc option \<times> world"

definition andThen :: "outcome \<Rightarrow> (world \<Rightarrow> outcome) \<Rightarrow> outcome" where
  "andThen r f = (case r of (None, w) \<Rightarrow> f w | (Some e, w) \<Rightarrow> (Some e, w))"

section \<open>Module initialisation\<close>

text \<open>\<^verbatim>\<open>str.lower\<close> on ASCII letters.\<close>

definition char_lower :: "char \<Rightarrow> char" where
  "char_lower c =
     (let n = (of_char c :: nat) in if 65 \<le> n \<and> n \<le> 90 then char_of (n + 32) else c)"

definition py_lower :: "string \<Rightarrow> string" where
  "py_lower s = map char_lower s"

definition is_digit :: "char \<Rightarrow> bool" where
  "is_digit c = (let n = (of_char c :: nat) in 48 \<le> n \<and> n \<le> 57)"

text \<open>
  \<^verbatim>\<open>re.match('darwin-(\d+)\..*', s)\<close>: the text must start with \<^verbatim>\<open>darwin-\<close>,
  then at least one digit, then a dot; the rest is free. The result is group 1, the
  run of digits, or \<open>None\<close> when there is no match.
\<close>

definition re_match_darwin :: "string \<Rightarrow> string option" where
  "re_match_darwin s =
     (if take 7 s = ''darwin-'' then
        (let rest = drop 7 s;
             ds = takeWhile is_digit rest;
             tl = dropWhile is_digit rest
         in if ds \<noteq> [] \<and> take 1 tl = ''.'' then Some ds else None)
      else None)"

text \<open>\<^verbatim>\<open>int(digits)\<close> on a run of decimal digits.\<close>

definition py_int :: "string \<Rightarrow> int" where
  "py_int ds = foldl (\<lambda>acc c. 10 * acc + (int (of_char c) - 48)) 0 ds"

text \<open>
  Lines 45 to 51: the binding of \<^verbatim>\<open>STARTUP_WITH_SHELL_OFF\<close> that the module makes
  from \<^verbatim>\<open>platform.platform()\<close>. The \<^verbatim>\<open>if\<close>/\<^verbatim>\<open>elif\<close> has no \<^verbatim>\<open>else\<close>.
\<close>

definition module_STARTUP_WITH_SHELL_OFF :: "string \<Rightarrow> bool option" where
  "module_STARTUP_WITH_SHELL_OFF platform =
     (case re_match_darwin (py_lower platform) of
        None \<Rightarrow> Some False
      | Some g \<Rightarrow> if py_int g \<ge> 16 then Some True else None)"

text \<open>
  The state when the server starts to serve: the module-level assignments, then
  \<^verbatim>\<open>main\<close> and \<^verbatim>\<open>setup_backend\<close>, which set the path of the executable, the
  LLDB flag and the debug flag.
\<close>

definition initial_world :: "string \<Rightarrow> string \<Rightarrow> bool \<Rightarrow> bool \<Rightarrow> world" where
  "initial_world platform gdb_path lldb dbg =
     \<lparr> gdb_controllers = [],
       gdb_reader_thread = None,
       DEFAULT_GDB_ARGS = [''-nx'', ''--interpreter=mi2''],
       DEFAULT_LLDB_ARGS = [''--interpreter=mi2''],
       STARTUP_WITH_SHELL_OFF = module_STARTUP_WITH_SHELL_OFF platform,
       config_LLDB = lldb,
       config_gdb_path = gdb_path,
       debug = dbg,
       stdout = [],
       emitted = [],
       spawned = [],
       exit_calls = [],
       started = 0 \<rparr>"

section \<open>Logging\<close>

definition CYELLOW2 :: string where
  "CYELLOW2 = CHR 0x1B # ''[93m''"

definition NORMAL :: string where
  "NORMAL = CHR 0x1B # ''[0m''"

text \<open>
  \<^verbatim>\<open>dbprint(*args)\<close>: prints only when \<^verbatim>\<open>app.debug\<close> is truthy, and then joins
  its arguments with \<^verbatim>\<open>' '.join(args)\<close>, which raises when one of them is not a
  string.
\<close>

definition dbprint :: "pyval list \<Rightarrow> world \<Rightarrow> outcome" where
  "dbprint args w =
     (if debug w then
        (case str_join '' '' args of
           Inl e \<Rightarrow> (Some e, w)
         | Inr s \<Rightarrow> (None, w\<lparr>stdout := stdout w @ [CYELLOW2 @ ''DEBUG: '' @ s @ NORMAL]\<rparr>))
      else (None, w))"

text \<open>\<^verbatim>\<open>emit(name, payload)\<close> to the room of one connection.\<close>

definition emit :: "string \<Rightarrow> string \<Rightarrow> payload \<Rightarrow> world \<Rightarrow> world" where
  "emit room name p w = w\<lparr>emitted := emitted w @ [(room, (name, p))]\<rparr>"

section \<open>The connect handler\<close>

text \<open>
  Lines 130 to 133 bind the local name \<^verbatim>\<open>gdb_args\<close> to one of the two module-level
  lists; it is a second name for that list, not a copy. \<open>gdb_args\<close> reads the list
  through that name, and the \<^verbatim>\<open>append\<close> of line 139 changes the list itself.
\<close>

definition gdb_args :: "world \<Rightarrow> string list" where
  "gdb_args w = (if config_LLDB w then DEFAULT_LLDB_ARGS w else DEFAULT_GDB_ARGS w)"

definition gdb_args_append :: "string \<Rightarrow> world \<Rightarrow> world" where
  "gdb_args_append x w =
     (if config_LLDB w then w\<lparr>DEFAULT_LLDB_ARGS := DEFAULT_LLDB_ARGS w @ [x]\<rparr>
      else w\<lparr>DEFAULT_GDB_ARGS := DEFAULT_GDB_ARGS w @ [x]\<rparr>)"

text \<open>
  Lines 129 to 141, the body of \<^verbatim>\<open>if request.sid not in ...keys()\<close>. Reading
  \<^verbatim>\<open>STARTUP_WITH_SHELL_OFF\<close> raises \<^verbatim>\<open>NameError\<close> when the module left the
  name unbound. An exception of the constructor is not caught.
\<close>

definition new_controller :: "spawner \<Rightarrow> string \<Rightarrow> world \<Rightarrow> outcome" where
  "new_controller spawn sid w0 =
     andThen (dbprint [PStr ''new sid'', PStr sid] w0) (\<lambda>w.
       case STARTUP_WITH_SHELL_OFF w of
         None \<Rightarrow> (Some (NameError ''name 'STARTUP_WITH_SHELL_OFF' is not defined''), w)
       | Some off \<Rightarrow>
           (let w1 = (if off
                      then gdb_args_append ''--init-eval-command=set startup-with-shell off'' w
                      else w);
                w2 = w1\<lparr>spawned := spawned w1 @ [(config_gdb_path w1, gdb_args w1)]\<rparr>
            in case spawn (length (spawned w1)) (config_gdb_path w1) (gdb_args w1) of
                 Inl e \<Rightarrow> (Some e, w2)
               | Inr g \<Rightarrow>
                   (None, w2\<lparr>gdb_controllers := dict_set (gdb_controllers w2) sid (Some g)\<rparr>)))"

text \<open>
  Line 144: \<^verbatim>\<open>emit('gdb_pid', _gdb_state['gdb_controllers'][request.sid].gdb_process.pid)\<close>.
\<close>

definition emit_gdb_pid :: "string \<Rightarrow> world \<Rightarrow> outcome" where
  "emit_gdb_pid sid w =
     (case dict_get (gdb_controllers w) sid of
        None \<Rightarrow> (Some (KeyError sid), w)
      | Some None \<Rightarrow>
          (Some (none_has_no_attribute ''gdb_process''), w)
      | Some (Some g) \<Rightarrow> (None, emit sid ''gdb_pid'' (JInt (pid g)) w))"

text \<open>Lines 125 to 144: the session of the connection and the \<^verbatim>\<open>gdb_pid\<close> event.\<close>

definition client_connected_session :: "spawner \<Rightarrow> string \<Rightarrow> world \<Rightarrow> outcome" where
  "client_connected_session spawn sid w0 =
     andThen
       (andThen
          (dbprint [PStr (''Client websocket connected in async mode '' @ [CHR 0x22]
                          @ ''eventlet'' @ [CHR 0x22] @ '', id '' @ sid)] w0)
          (\<lambda>w. if sid \<notin> set (dict_keys (gdb_controllers w))
                then new_controller spawn sid w
                else (None, w)))
       (emit_gdb_pid sid)"

text \<open>
  Lines 147 to 149: the reader thread is started when \<^verbatim>\<open>_gdb_state\<close> holds none.
  \<^verbatim>\<open>start_background_task\<close> returns the thread object, here the number of the call.
\<close>

definition client_connected_reader :: "world \<Rightarrow> outcome" where
  "client_connected_reader w =
     (if gdb_reader_thread w = None then
        dbprint [PStr ''Created background thread to read gdb responses'']
          (w\<lparr>gdb_reader_thread := Some (started w), started := Suc (started w)\<rparr>)
      else (None, w))"

definition client_connected :: "spawner \<Rightarrow> string \<Rightarrow> world \<Rightarrow> outcome" where
  "client_connected spawn sid w =
     andThen (client_connected_session spawn sid w) client_connected_reader"

section \<open>The command handler\<close>

text \<open>
  \<^verbatim>\<open>run_gdb_command(message)\<close>: \<^verbatim>\<open>message['cmd']\<close> raises \<^verbatim>\<open>KeyError\<close> when
  the key is missing; that and a failure of the write are caught by
  \<^verbatim>\<open>except Exception\<close> and reported to the connection.
\<close>

definition run_gdb_command :: "cmd dict \<Rightarrow> string \<Rightarrow> world \<Rightarrow> outcome" where
  "run_gdb_command message sid w =
     (case dict_get (gdb_controllers w) sid of
        Some (Some g) \<Rightarrow>
          (case dict_get message ''cmd'' of
             None \<Rightarrow>
               (None, emit sid ''error_running_gdb_command''
                        (JDict [(''message'', str_exc (KeyError ''cmd''))]) w)
           | Some c \<Rightarrow>
               (case gdb_write g c of
                  (Some e, g') \<Rightarrow>
                    (let w1 = w\<lparr>gdb_controllers := dict_set (gdb_controllers w) sid (Some g')\<rparr>
                     in if is_Exception e
                        then (None, emit sid ''error_running_gdb_command''
                                      (JDict [(''message'', str_exc e)]) w1)
                        else (Some e, w1))
                | (None, g') \<Rightarrow>
                    (None, w\<lparr>gdb_controllers := dict_set (gdb_controllers w) sid (Some g')\<rparr>)))
      | _ \<Rightarrow>
          (None, emit sid ''error_running_gdb_command''
                   (JDict [(''message'', ''gdb is not running'')]) w))"

section \<open>The disconnect handler\<close>

text \<open>
  \<^verbatim>\<open>client_disconnected()\<close>: for a connection of the table, the pid is printed,
  \<^verbatim>\<open>exit()\<close> is called on the controller and the entry is popped. There is no
  \<^verbatim>\<open>try\<close>: when \<^verbatim>\<open>exit()\<close> raises, the \<^verbatim>\<open>pop\<close> is not reached.
\<close>

definition client_disconnected :: "string \<Rightarrow> world \<Rightarrow> outcome" where
  "client_disconnected sid w0 =
     andThen (dbprint [PStr (''Client websocket disconnected, id '' @ sid)] w0) (\<lambda>w.
       if sid \<in> set (dict_keys (gdb_controllers w)) then
         (case dict_get (gdb_controllers w) sid of
            Some (Some g) \<Rightarrow>
              andThen (dbprint [PStr (''Exiting gdb subprocess pid '' @ str_int (pid g))] w)
                (\<lambda>w1.
                   let w2 = w1\<lparr>exit_calls := exit_calls w1 @ [pid g]\<rparr>
                   in case exit_fault g of
                        Some e \<Rightarrow> (Some e, w2)
                      | None \<Rightarrow>
                          (None, w2\<lparr>gdb_controllers := dict_pop (gdb_controllers w2) sid\<rparr>))
          | _ \<Rightarrow> (Some (none_has_no_attribute ''gdb_process''), w))
       else (None, w))"

section \<open>The dispatcher\<close>

text \<open>
  The body of the \<^verbatim>\<open>try\<close> of lines 195 to 206 for one pair of the table. The
  result is the exception raised, or whether the \<^verbatim>\<open>break\<close> was reached. The poll
  changes the controller, which the table refers to.
\<close>

definition poll_body :: "string \<Rightarrow> GdbController option \<Rightarrow> world \<Rightarrow> (pyexc + bool) \<times> world" where
  "poll_body client_id gdb w =
     (case gdb of
        Some g \<Rightarrow>
          (case get_gdb_response g of
             (Inl e, g') \<Rightarrow>
               (Inl e, w\<lparr>gdb_controllers := dict_set (gdb_controllers w) client_id (Some g')\<rparr>)
           | (Inr response, g') \<Rightarrow>
               (let w1 = w\<lparr>gdb_controllers := dict_set (gdb_controllers w) client_id (Some g')\<rparr>
                in if truthy response then
                     (case dbprint [PStr (''emiting message to websocket client id '' @ client_id)] w1 of
                        (Some e, w2) \<Rightarrow> (Inl e, w2)
                      | (None, w2) \<Rightarrow>
                          (Inr False, emit client_id ''gdb_response'' (JResponse response) w2))
                   else (Inr False, w1)))
      | None \<Rightarrow>
          (case dbprint [PStr ''thread to read gdb vars is exiting since gdb controller object was not found''] w of
             (Some e, w1) \<Rightarrow> (Inl e, w1)
           | (None, w1) \<Rightarrow> (Inr True, w1)))"

text \<open>
  The \<^verbatim>\<open>for\<close> loop of lines 193 to 209 over the pairs of the table. An
  \<^verbatim>\<open>Exception\<close> of the body is handed to \<^verbatim>\<open>dbprint(e)\<close>; what the handler
  itself raises, and what \<^verbatim>\<open>except Exception\<close> does not catch, leaves the loop.
\<close>

fun for_items :: "(string \<times> GdbController option) list \<Rightarrow> world \<Rightarrow> outcome" where
  "for_items [] w = (None, w)"
| "for_items ((client_id, gdb) # rest) w =
     (case poll_body client_id gdb w of
        (Inr True, w1) \<Rightarrow> (None, w1)
      | (Inr False, w1) \<Rightarrow> for_items rest w1
      | (Inl e, w1) \<Rightarrow>
          if is_Exception e
          then andThen (dbprint [PExc e] w1) (for_items rest)
          else (Some e, w1))"

text \<open>One round of the \<^verbatim>\<open>while True\<close> loop: the sleep, then the \<^verbatim>\<open>for\<close> loop.\<close>

definition tick :: "world \<Rightarrow> outcome" where
  "tick w = for_items (gdb_controllers w) w"

text \<open>
  \<^verbatim>\<open>read_and_forward_gdb_output()\<close> never returns; it can only be left by an
  exception. With fuel \<open>n\<close> the model runs at most \<open>n\<close> rounds: the result is
  \<open>(Some e, w)\<close> when a round raised \<open>e\<close>, which ends the task, and \<open>(None, w)\<close>
  when all \<open>n\<close> rounds completed and the loop goes on.
\<close>

fun read_and_forward_gdb_output :: "nat \<Rightarrow> world \<Rightarrow> outcome" where
  "read_and_forward_gdb_output 0 w = (None, w)"
| "read_and_forward_gdb_output (Suc n) w =
     andThen (tick w) (read_and_forward_gdb_output n)"

section \<open>Requests handled one after another\<close>

text \<open>
  The events that the transport hands to the handlers, and one round of the dispatcher.
  \<open>handle\<close> runs one of them to its end before the next one starts; an exception
  that leaves a handler is the framework's business and the server goes on in the state
  that the handler left.
\<close>

datatype request =
    Connect string
  | RunCommand string "cmd dict"
  | Disconnect string
  | Round

definition handle :: "spawner \<Rightarrow> world \<Rightarrow> request \<Rightarrow> world" where
  "handle spawn w rq =
     snd (case rq of
            Connect sid \<Rightarrow> client_connected spawn sid w
          | RunCommand sid message \<Rightarrow> run_gdb_command message sid w
          | Disconnect sid \<Rightarrow> client_disconnected sid w
          | Round \<Rightarrow> tick w)"

definition serve :: "spawner \<Rightarrow> request list \<Rightarrow> world \<Rightarrow> world" where
  "serve spawn rqs w = foldl (handle spawn) w rqs"

section \<open>Concrete collaborators and states\<close>

text \<open>
  Controllers, constructors and start states for running the handlers on concrete
  inputs: a controller with a given pid and poll script, a constructor that always
  succeeds, one that always fails, one whose controllers cannot be exited, and one whose
  first controller raises at its first poll while the later ones have one response
  queued.
\<close>

definition controller_with :: "int \<Rightarrow> (pyexc + response) list \<Rightarrow> GdbController" where
  "controller_with p rs =
     \<lparr>pid = p, responses = rs, write_fault = None, exit_fault = None, written = []\<rparr>"

definition spawn_fresh :: spawner where
  "spawn_fresh n path args = Inr (controller_with (1000 + int n) [])"

definition spawn_fails :: spawner where
  "spawn_fails n path args = Inl (OtherException ''FileNotFoundError'' ''[Errno 2] No such file or directory'')"

definition spawn_exit_fails :: spawner where
  "spawn_exit_fails n path args =
     Inr ((controller_with (1000 + int n) [])
            \<lparr>exit_fault := Some (OtherException ''ProcessLookupError'' ''[Errno 3] No such process'')\<rparr>)"

definition spawn_faulty_then_healthy :: spawner where
  "spawn_faulty_then_healthy n path args =
     (if n = 0
      then Inr (controller_with 1000 [Inl (OtherException ''NoGdbProcessError'' ''gdb process has exited'')])
      else Inr (controller_with (1000 + int n) [Inr (Response ''done'')]))"

definition linux_world :: world where
  "linux_world =
     initial_world ''Linux-4.4.0-98-generic-x86_64-with-Ubuntu-16.04-xenial'' ''gdb'' False False"

definition linux_debug_world :: world where
  "linux_debug_world =
     initial_world ''Linux-4.4.0-98-generic-x86_64-with-Ubuntu-16.04-xenial'' ''gdb'' False True"

definition darwin16_world :: world where
  "darwin16_world = initial_world ''Darwin-16.7.0-x86_64-i386-64bit'' ''gdb'' False False"

text \<open>
  A constructor whose first controller will answer four polls: a response, nothing, an
  exception, a response.
\<close>

definition spawn_scripted :: spawner where
  "spawn_scripted n path args =
     (if n = 0
      then Inr (controller_with 1000
                  [Inr (Response ''r1''), Inr NoResponse,
                   Inl (OtherException ''OSError'' ''select failed''), Inr (Response ''r2'')])
      else Inr (controller_with (1000 + int n) [Inr (Response ''b1'')]))"

definition scripted_sessions :: world where
  "scripted_sessions =
     snd (andThen (client_connected spawn_scripted ''A'' linux_world)
                  (client_connected spawn_scripted ''B''))"

text \<open>Two connections \<open>A\<close> and \<open>B\<close>, in this order, on the last constructor.\<close>

definition two_sessions :: "world \<Rightarrow> world" where
  "two_sessions w =
     snd (andThen (client_connected spawn_faulty_then_healthy ''A'' w)
                  (client_connected spawn_faulty_then_healthy ''B''))"

section \<open>What the properties speak about\<close>

text \<open>The output after \<^verbatim>\<open>dbprint\<close> of one string.\<close>

definition log_line :: "world \<Rightarrow> string \<Rightarrow> string list" where
  "log_line w s = stdout w @ (if debug w then [CYELLOW2 @ ''DEBUG: '' @ s @ NORMAL] else [])"

text \<open>
  The payloads of the \<^verbatim>\<open>gdb_response\<close> events that were sent to the room of
  connection \<open>c\<close>, in the order of sending.
\<close>

definition delivered :: "string \<Rightarrow> world \<Rightarrow> payload list" where
  "delivered c w =
     map (\<lambda>ev. snd (snd ev))
       (filter (\<lambda>ev. fst ev = c \<and> fst (snd ev) = ''gdb_response'') (emitted w))"

text \<open>
  What a run of poll outcomes of one process should put on the channel: one payload for
  each truthy value returned, in the order of the polls; an exception and a falsy value
  give nothing.
\<close>

fun forwarded :: "(pyexc + response) list \<Rightarrow> payload list" where
  "forwarded [] = []"
| "forwarded (Inl e # rest) = forwarded rest"
| "forwarded (Inr r # rest) =
     (if truthy r then JResponse r # forwarded rest else forwarded rest)"

text \<open>
  The two things that the guard of lines 147 and 148 is about: the thread that
  \<^verbatim>\<open>_gdb_state\<close> holds and the number of tasks started. \<open>single_flight\<close> says that
  at most one task was started, and that none was started exactly when
  \<^verbatim>\<open>_gdb_state\<close> holds no thread.
\<close>

definition reader_state :: "world \<Rightarrow> nat option \<times> nat" where
  "reader_state w = (gdb_reader_thread w, started w)"

definition single_flight :: "world \<Rightarrow> bool" where
  "single_flight w \<longleftrightarrow> started w \<le> 1 \<and> (gdb_reader_thread w = None \<longleftrightarrow> started w = 0)"

section \<open>Basic facts\<close>

lemma andThen_None [simp]: "andThen (None, w) f = f w"
  by (simp add: andThen_def)

lemma andThen_Some [simp]: "andThen (Some e, w) f = (Some e, w)"
  by (simp add: andThen_def)

lemma dbprint_PStr [simp]:
  "dbprint [PStr s] w = (None, w\<lparr>stdout := log_line w s\<rparr>)"
  by (simp add: dbprint_def str_join_def log_line_def)

lemma dbprint_PStr2 [simp]:
  "dbprint [PStr s, PStr t] w = (None, w\<lparr>stdout := log_line w (s @ '' '' @ t)\<rparr>)"
  by (simp add: dbprint_def str_join_def log_line_def)

lemma dbprint_PExc [simp]:
  "dbprint [PExc e] w =
     (if debug w then (Some (join_type_error 0 e), w) else (None, w))"
  by (simp add: dbprint_def str_join_def)

lemma dict_get_set [simp]:
  "dict_get (dict_set d k v) k' = (if k' = k then Some v else dict_get d k')"
  by (simp add: dict_get_def dict_set_def update_conv')

lemma dict_get_pop [simp]:
  "dict_get (dict_pop d k) k' = (if k' = k then None else dict_get d k')"
  by (simp add: dict_get_def dict_pop_def delete_conv')

lemma dict_keys_get: "k \<in> set (dict_keys d) \<longleftrightarrow> dict_get d k \<noteq> None"
  by (simp add: dict_keys_def dict_get_def map_of_eq_None_iff)

section \<open>Connect\<close>

lemma session_existing:
  assumes "dict_get (gdb_controllers w) sid = Some (Some g)"
  shows "fst (client_connected_session spawn sid w) = None"
    and "emitted (snd (client_connected_session spawn sid w))
           = emitted w @ [(sid, ''gdb_pid'', JInt (pid g))]"
    and "spawned (snd (client_connected_session spawn sid w)) = spawned w"
    and "gdb_controllers (snd (client_connected_session spawn sid w)) = gdb_controllers w"
proof -
  have "sid \<in> set (dict_keys (gdb_controllers w))"
    using assms by (simp add: dict_keys_get)
  then have "client_connected_session spawn sid w
     = emit_gdb_pid sid
         (w\<lparr>stdout := log_line w (''Client websocket connected in async mode '' @ [CHR 0x22]
                                   @ ''eventlet'' @ [CHR 0x22] @ '', id '' @ sid)\<rparr>)"
    by (simp add: client_connected_session_def)
  then show "fst (client_connected_session spawn sid w) = None"
    and "emitted (snd (client_connected_session spawn sid w))
           = emitted w @ [(sid, ''gdb_pid'', JInt (pid g))]"
    and "spawned (snd (client_connected_session spawn sid w)) = spawned w"
    and "gdb_controllers (snd (client_connected_session spawn sid w)) = gdb_controllers w"
    using assms by (simp_all add: emit_gdb_pid_def emit_def)
qed

lemma reader_fields:
  "fst (client_connected_reader w) = None
 \<and> emitted (snd (client_connected_reader w)) = emitted w
 \<and> spawned (snd (client_connected_reader w)) = spawned w
 \<and> gdb_controllers (snd (client_connected_reader w)) = gdb_controllers w"
  by (simp add: client_connected_reader_def)

lemma emit_gdb_pid_None:
  assumes "fst (emit_gdb_pid sid w) = None"
  shows "\<exists>g. dict_get (gdb_controllers w) sid = Some (Some g)
           \<and> emit_gdb_pid sid w
               = (None, w\<lparr>emitted := emitted w @ [(sid, ''gdb_pid'', JInt (pid g))]\<rparr>)"
  using assms by (simp add: emit_gdb_pid_def emit_def split: option.splits)

lemma new_controller_emitted:
  "emitted (snd (new_controller spawn sid w)) = emitted w"
  by (simp add: new_controller_def Let_def gdb_args_append_def split: option.splits sum.splits)

lemma session_None:
  assumes "client_connected_session spawn sid w = (None, w')"
  shows "\<exists>g. dict_get (gdb_controllers w') sid = Some (Some g)
           \<and> emitted w' = emitted w @ [(sid, ''gdb_pid'', JInt (pid g))]"
proof -
  define w0 where
    "w0 = w\<lparr>stdout := log_line w (''Client websocket connected in async mode '' @ [CHR 0x22]
                                  @ ''eventlet'' @ [CHR 0x22] @ '', id '' @ sid)\<rparr>"
  define r where
    "r = (if sid \<notin> set (dict_keys (gdb_controllers w0))
          then new_controller spawn sid w0 else (None, w0))"
  have em: "emitted (snd r) = emitted w"
    by (simp add: r_def w0_def new_controller_emitted)
  have eq: "client_connected_session spawn sid w = andThen r (emit_gdb_pid sid)"
    by (simp add: client_connected_session_def r_def w0_def)
  obtain x w1 where r: "r = (x, w1)" by (cases r)
  show ?thesis
  proof (cases x)
    case None
    then have "emit_gdb_pid sid w1 = (None, w')"
      using eq r assms by simp
    then show ?thesis
      using emit_gdb_pid_None [of sid w1] em r by auto
  next
    case (Some e)
    then show ?thesis using eq r assms by simp
  qed
qed

text \<open>
  Claim C9. On a platform whose lower-cased name matches the pattern with a major
  version below 16, the module leaves \<^verbatim>\<open>STARTUP_WITH_SHELL_OFF\<close> unbound, and a
  connect of a connection that has no session (the first connect is one) raises
  \<^verbatim>\<open>NameError\<close>: no constructor call is made, the table stays as it was, nothing is
  emitted and no reader thread is started.
\<close>

theorem unbound_flag_connect:
  assumes "re_match_darwin (py_lower platform) = Some g"
      and "py_int g < 16"
      and "STARTUP_WITH_SHELL_OFF w = module_STARTUP_WITH_SHELL_OFF platform"
      and "sid \<notin> set (dict_keys (gdb_controllers w))"
  shows "module_STARTUP_WITH_SHELL_OFF platform = None
       \<and> fst (client_connected spawn sid w)
           = Some (NameError ''name 'STARTUP_WITH_SHELL_OFF' is not defined'')
       \<and> spawned (snd (client_connected spawn sid w)) = spawned w
       \<and> gdb_controllers (snd (client_connected spawn sid w)) = gdb_controllers w
       \<and> emitted (snd (client_connected spawn sid w)) = emitted w
       \<and> started (snd (client_connected spawn sid w)) = started w"
proof -
  have unbound: "module_STARTUP_WITH_SHELL_OFF platform = None"
    using assms(1,2) by (simp add: module_STARTUP_WITH_SHELL_OFF_def)
  then have "STARTUP_WITH_SHELL_OFF w = None"
    using assms(3) by simp
  then show ?thesis
    using assms(4) unbound
    by (simp add: client_connected_def client_connected_session_def new_controller_def)
qed

theorem unbound_flag_connect_witness:
  "re_match_darwin (py_lower ''Darwin-15.6.0-x86_64-i386-64bit'') = Some ''15''
 \<and> py_int ''15'' < 16
 \<and> fst (client_connected spawn_fresh ''A''
          (initial_world ''Darwin-15.6.0-x86_64-i386-64bit'' ''gdb'' False False))
      = Some (NameError ''name 'STARTUP_WITH_SHELL_OFF' is not defined'')
 \<and> spawned (snd (client_connected spawn_fresh ''A''
          (initial_world ''Darwin-15.6.0-x86_64-i386-64bit'' ''gdb'' False False))) = []"
proof -
  have h1: "re_match_darwin (py_lower ''Darwin-15.6.0-x86_64-i386-64bit'') = Some ''15''"
    by code_simp
  have h2: "py_int ''15'' < 16"
    by code_simp
  have h3: "STARTUP_WITH_SHELL_OFF
              (initial_world ''Darwin-15.6.0-x86_64-i386-64bit'' ''gdb'' False False)
              = module_STARTUP_WITH_SHELL_OFF ''Darwin-15.6.0-x86_64-i386-64bit''"
    by (simp add: initial_world_def)
  have h4: "''A'' \<notin> set (dict_keys (gdb_controllers
              (initial_world ''Darwin-15.6.0-x86_64-i386-64bit'' ''gdb'' False False)))"
    by (simp add: initial_world_def dict_keys_def)
  have h5: "spawned (initial_world ''Darwin-15.6.0-x86_64-i386-64bit'' ''gdb'' False False) = []"
    by (simp add: initial_world_def)
  show ?thesis
    using unbound_flag_connect [OF h1 h2 h3 h4, of spawn_fresh] h1 h2 h5 by simp
qed

text \<open>
  Claim C10, as stated, fails: not every connect event emits a \<^verbatim>\<open>gdb_pid\<close>
  event. A connect whose handler raises before line 144, because the flag is unbound or
  because the constructor fails, emits nothing.
\<close>

theorem connect_without_gdb_pid_counterexample:
  "fst (client_connected spawn_fresh ''A''
          (initial_world ''Darwin-15.6.0-x86_64-i386-64bit'' ''gdb'' False False)) \<noteq> None
 \<and> emitted (snd (client_connected spawn_fresh ''A''
          (initial_world ''Darwin-15.6.0-x86_64-i386-64bit'' ''gdb'' False False))) = []
 \<and> fst (client_connected spawn_fails ''B'' linux_world) \<noteq> None
 \<and> emitted (snd (client_connected spawn_fails ''B'' linux_world)) = []"
  by code_simp

text \<open>
  Claim C10, amended. A connect for a connection that already owns a session completes,
  spawns nothing, leaves the table as it is, and still emits one \<^verbatim>\<open>gdb_pid\<close> event
  to that connection with the pid of its controller. And every connect that completes
  has emitted exactly one event, the \<^verbatim>\<open>gdb_pid\<close> of the session that the table then
  holds for the connection.
\<close>

theorem connect_emits_gdb_pid:
  "(dict_get (gdb_controllers w) sid = Some (Some g) \<longrightarrow>
      fst (client_connected spawn sid w) = None
    \<and> emitted (snd (client_connected spawn sid w)) = emitted w @ [(sid, ''gdb_pid'', JInt (pid g))]
    \<and> spawned (snd (client_connected spawn sid w)) = spawned w
    \<and> gdb_controllers (snd (client_connected spawn sid w)) = gdb_controllers w)
 \<and> (fst (client_connected spawn sid w) = None \<longrightarrow>
      (\<exists>g'. dict_get (gdb_controllers (snd (client_connected spawn sid w))) sid = Some (Some g')
         \<and> emitted (snd (client_connected spawn sid w))
             = emitted w @ [(sid, ''gdb_pid'', JInt (pid g'))]))"
proof (intro conjI impI)
  assume a: "dict_get (gdb_controllers w) sid = Some (Some g)"
  note s = session_existing [OF a, of spawn]
  obtain x w1 where c: "client_connected_session spawn sid w = (x, w1)"
    by (cases "client_connected_session spawn sid w")
  have r: "client_connected spawn sid w = client_connected_reader w1" and x: "x = None"
    using s(1) c by (simp_all add: client_connected_def)
  show "fst (client_connected spawn sid w) = None"
    using s c by (simp add: r reader_fields)
  show "emitted (snd (client_connected spawn sid w)) = emitted w @ [(sid, ''gdb_pid'', JInt (pid g))]"
    using s c by (simp add: r reader_fields)
  show "spawned (snd (client_connected spawn sid w)) = spawned w"
    using s c by (simp add: r reader_fields)
  show "gdb_controllers (snd (client_connected spawn sid w)) = gdb_controllers w"
    using s c by (simp add: r reader_fields)
next
  assume a: "fst (client_connected spawn sid w) = None"
  obtain x w1 where s: "client_connected_session spawn sid w = (x, w1)"
    by (cases "client_connected_session spawn sid w")
  have x: "x = None"
    using a s by (cases x) (simp_all add: client_connected_def)
  from session_None [of spawn sid w w1] s x obtain g' where
    g': "dict_get (gdb_controllers w1) sid = Some (Some g')"
        "emitted w1 = emitted w @ [(sid, ''gdb_pid'', JInt (pid g'))]"
    by blast
  have "client_connected spawn sid w = client_connected_reader w1"
    by (simp add: client_connected_def s x)
  then show "\<exists>g'. dict_get (gdb_controllers (snd (client_connected spawn sid w))) sid
                     = Some (Some g')
         \<and> emitted (snd (client_connected spawn sid w))
             = emitted w @ [(sid, ''gdb_pid'', JInt (pid g'))]"
    using g' by (simp add: reader_fields)
qed

theorem connect_emits_gdb_pid_witness:
  "dict_get (gdb_controllers (snd (client_connected spawn_fresh ''A'' linux_world))) ''A''
     = Some (Some (controller_with 1000 []))
 \<and> fst (client_connected spawn_fresh ''A'' (snd (client_connected spawn_fresh ''A'' linux_world)))
     = None
 \<and> emitted (snd (client_connected spawn_fresh ''A''
                   (snd (client_connected spawn_fresh ''A'' linux_world))))
     = [(''A'', ''gdb_pid'', JInt 1000), (''A'', ''gdb_pid'', JInt 1000)]
 \<and> fst (client_connected spawn_fresh ''B'' linux_world) = None
 \<and> (\<exists>g'. dict_get (gdb_controllers (snd (client_connected spawn_fresh ''B'' linux_world))) ''B''
             = Some (Some g')
        \<and> emitted (snd (client_connected spawn_fresh ''B'' linux_world))
             = [(''B'', ''gdb_pid'', JInt (pid g'))])"
proof -
  have h1: "dict_get (gdb_controllers (snd (client_connected spawn_fresh ''A'' linux_world))) ''A''
     = Some (Some (controller_with 1000 []))"
    by code_simp
  have h2: "emitted (snd (client_connected spawn_fresh ''A'' linux_world))
     = [(''A'', ''gdb_pid'', JInt 1000)]"
    by code_simp
  have h3: "fst (client_connected spawn_fresh ''B'' linux_world) = None"
    by code_simp
  have h4: "emitted linux_world = []"
    by code_simp
  have h5: "pid (controller_with 1000 []) = 1000"
    by (simp add: controller_with_def)
  show ?thesis
    using connect_emits_gdb_pid [of "snd (client_connected spawn_fresh ''A'' linux_world)" "''A''"
            "controller_with 1000 []" spawn_fresh]
          connect_emits_gdb_pid [of linux_world "''B''" "controller_with 0 []" spawn_fresh]
          h1 h2 h3 h4 h5
    by simp
qed

text \<open>
  Claim C5. The claim says that handling a connect never changes the configured
  argument list, so that every spawn gets the same arguments. Where
  \<^verbatim>\<open>STARTUP_WITH_SHELL_OFF\<close> is true (darwin, major version 16 or more),
  \<^verbatim>\<open>gdb_args.append\<close> appends to \<^verbatim>\<open>DEFAULT_GDB_ARGS\<close> itself: the first
  connection is spawned with three arguments and the second with four.
\<close>

theorem connect_mutates_default_args:
  "map snd (spawned (snd (andThen (client_connected spawn_fresh ''A'' darwin16_world)
                                  (client_connected spawn_fresh ''B''))))
     = [[''-nx'', ''--interpreter=mi2'', ''--init-eval-command=set startup-with-shell off''],
        [''-nx'', ''--interpreter=mi2'', ''--init-eval-command=set startup-with-shell off'',
         ''--init-eval-command=set startup-with-shell off'']]"
  by code_simp

text \<open>
  Claim C6, as stated, fails: when the constructor raises, the connect handler emits
  nothing, so no error event reaches the connection.
\<close>

theorem spawn_failure_counterexample:
  "fst (client_connected spawn_fails ''A'' linux_world)
     = Some (OtherException ''FileNotFoundError'' ''[Errno 2] No such file or directory'')
 \<and> emitted (snd (client_connected spawn_fails ''A'' linux_world)) = []"
  by code_simp

text \<open>
  Claim C6, amended. If the constructor raises during the connect of a connection
  without a session, its exception leaves the connect handler: the handler emits no
  event, inserts no session into the table and does not start the reader thread.
\<close>

theorem spawn_failure_propagates:
  assumes "sid \<notin> set (dict_keys (gdb_controllers w))"
      and "STARTUP_WITH_SHELL_OFF w = Some off"
      and "spawn (length (spawned w)) (config_gdb_path w)
             (if off
              then gdb_args w @ [''--init-eval-command=set startup-with-shell off'']
              else gdb_args w) = Inl e"
  shows "fst (client_connected spawn sid w) = Some e
       \<and> emitted (snd (client_connected spawn sid w)) = emitted w
       \<and> gdb_controllers (snd (client_connected spawn sid w)) = gdb_controllers w
       \<and> gdb_reader_thread (snd (client_connected spawn sid w)) = gdb_reader_thread w
       \<and> started (snd (client_connected spawn sid w)) = started w"
proof -
  have "off \<and> config_LLDB w \<or> off \<and> \<not> config_LLDB w
      \<or> \<not> off \<and> config_LLDB w \<or> \<not> off \<and> \<not> config_LLDB w"
    by blast
  then show ?thesis
  proof (elim disjE)
    assume "off \<and> config_LLDB w"
    then show ?thesis
      using assms
      by (simp add: client_connected_def client_connected_session_def new_controller_def
            gdb_args_append_def gdb_args_def Let_def)
  next
    assume "off \<and> \<not> config_LLDB w"
    then show ?thesis
      using assms
      by (simp add: client_connected_def client_connected_session_def new_controller_def
            gdb_args_append_def gdb_args_def Let_def)
  next
    assume "\<not> off \<and> config_LLDB w"
    then show ?thesis
      using assms
      by (simp add: client_connected_def client_connected_session_def new_controller_def
            gdb_args_def Let_def)
  next
    assume "\<not> off \<and> \<not> config_LLDB w"
    then show ?thesis
      using assms
      by (simp add: client_connected_def client_connected_session_def new_controller_def
            gdb_args_def Let_def)
  qed
qed

theorem spawn_failure_propagates_witness:
  "''A'' \<notin> set (dict_keys (gdb_controllers linux_world))
 \<and> STARTUP_WITH_SHELL_OFF linux_world = Some False
 \<and> fst (client_connected spawn_fails ''A'' linux_world)
      = Some (OtherException ''FileNotFoundError'' ''[Errno 2] No such file or directory'')
 \<and> emitted (snd (client_connected spawn_fails ''A'' linux_world)) = []
 \<and> gdb_controllers (snd (client_connected spawn_fails ''A'' linux_world)) = []
 \<and> gdb_reader_thread (snd (client_connected spawn_fails ''A'' linux_world)) = None
 \<and> started (snd (client_connected spawn_fails ''A'' linux_world)) = 0"
proof -
  have h1: "''A'' \<notin> set (dict_keys (gdb_controllers linux_world))"
    by code_simp
  have h2: "STARTUP_WITH_SHELL_OFF linux_world = Some False"
    by code_simp
  have h3: "spawn_fails (length (spawned linux_world)) (config_gdb_path linux_world)
              (if False
               then gdb_args linux_world @ [''--init-eval-command=set startup-with-shell off'']
               else gdb_args linux_world)
              = Inl (OtherException ''FileNotFoundError'' ''[Errno 2] No such file or directory'')"
    by (simp add: spawn_fails_def)
  have h4: "emitted linux_world = [] \<and> gdb_controllers linux_world = []
          \<and> gdb_reader_thread linux_world = None \<and> started linux_world = 0"
    by (simp add: linux_world_def initial_world_def)
  show ?thesis
    using spawn_failure_propagates [of "''A''" linux_world False spawn_fails
            "OtherException ''FileNotFoundError'' ''[Errno 2] No such file or directory''", OF h1 h2 h3] h1 h2 h4
    by simp
qed

section \<open>Commands\<close>

text \<open>
  Claim C8, as stated, fails: for a connection without a session the handler does not
  emit \<^verbatim>\<open>error_running_command\<close> with the message
  \<^verbatim>\<open>debugger is not running\<close>.
\<close>

theorem unknown_session_counterexample:
  "emitted (snd (run_gdb_command [(''cmd'', CmdStr ''info registers'')] ''B'' linux_world))
     \<noteq> [(''B'', ''error_running_command'', JDict [(''message'', ''debugger is not running'')])]"
  by code_simp

text \<open>
  Claim C8, amended. For a command of a connection that has no session the handler
  completes and changes nothing but the emitted events, to which it adds exactly one:
  \<^verbatim>\<open>error_running_gdb_command\<close> with the message \<^verbatim>\<open>gdb is not running\<close>,
  sent to that connection. No session is created.
\<close>

theorem unknown_session_command:
  assumes "dict_get (gdb_controllers w) sid = None"
  shows "run_gdb_command message sid w
           = (None, w\<lparr>emitted := emitted w @
                [(sid, ''error_running_gdb_command'',
                  JDict [(''message'', ''gdb is not running'')])]\<rparr>)"
  using assms by (simp add: run_gdb_command_def emit_def)

theorem unknown_session_command_witness:
  "dict_get (gdb_controllers linux_world) ''B'' = None
 \<and> fst (run_gdb_command [(''cmd'', CmdStr ''info registers'')] ''B'' linux_world) = None
 \<and> emitted (snd (run_gdb_command [(''cmd'', CmdStr ''info registers'')] ''B'' linux_world))
     = [(''B'', ''error_running_gdb_command'', JDict [(''message'', ''gdb is not running'')])]
 \<and> gdb_controllers (snd (run_gdb_command [(''cmd'', CmdStr ''info registers'')] ''B'' linux_world))
     = []"
proof -
  have h1: "dict_get (gdb_controllers linux_world) ''B'' = None"
    by code_simp
  have h2: "emitted linux_world = [] \<and> gdb_controllers linux_world = []"
    by (simp add: linux_world_def initial_world_def)
  show ?thesis
    using unknown_session_command [OF h1, of "[(''cmd'', CmdStr ''info registers'')]"] h1 h2
    by simp
qed

section \<open>Disconnect\<close>

text \<open>
  Claim C7, as stated, fails: when \<^verbatim>\<open>exit()\<close> raises, the exception leaves the
  disconnect handler and the entry stays in the table.
\<close>

theorem exit_failure_counterexample:
  "fst (client_disconnected ''A'' (snd (client_connected spawn_exit_fails ''A'' linux_world)))
     = Some (OtherException ''ProcessLookupError'' ''[Errno 3] No such process'')
 \<and> dict_keys (gdb_controllers
      (snd (client_disconnected ''A'' (snd (client_connected spawn_exit_fails ''A'' linux_world)))))
     = [''A'']"
  by code_simp

text \<open>
  Claim C7, amended. For a disconnect of a connection that has a session,
  \<^verbatim>\<open>exit()\<close> is called on its controller; when the call returns, the handler
  completes and the entry is removed from the table; when the call raises, the exception
  leaves the handler and the table is unchanged. For a connection without a session
  (a second disconnect is one) the handler completes and changes nothing but the debug
  output.
\<close>

theorem disconnect_cases:
  "(dict_get (gdb_controllers w) sid = Some (Some g) \<and> exit_fault g = None \<longrightarrow>
      fst (client_disconnected sid w) = None
    \<and> gdb_controllers (snd (client_disconnected sid w)) = dict_pop (gdb_controllers w) sid
    \<and> dict_get (gdb_controllers (snd (client_disconnected sid w))) sid = None
    \<and> exit_calls (snd (client_disconnected sid w)) = exit_calls w @ [pid g])
 \<and> (dict_get (gdb_controllers w) sid = Some (Some g) \<and> exit_fault g = Some e \<longrightarrow>
      fst (client_disconnected sid w) = Some e
    \<and> gdb_controllers (snd (client_disconnected sid w)) = gdb_controllers w
    \<and> exit_calls (snd (client_disconnected sid w)) = exit_calls w @ [pid g])
 \<and> (dict_get (gdb_controllers w) sid = None \<longrightarrow>
      client_disconnected sid w
        = (None, w\<lparr>stdout := log_line w (''Client websocket disconnected, id '' @ sid)\<rparr>))"
proof (intro conjI impI)
  assume a: "dict_get (gdb_controllers w) sid = None"
  then have "sid \<notin> set (dict_keys (gdb_controllers w))"
    by (simp add: dict_keys_get)
  then show "client_disconnected sid w
        = (None, w\<lparr>stdout := log_line w (''Client websocket disconnected, id '' @ sid)\<rparr>)"
    by (simp add: client_disconnected_def)
next
  assume a: "dict_get (gdb_controllers w) sid = Some (Some g) \<and> exit_fault g = None"
  then have k: "sid \<in> set (dict_keys (gdb_controllers w))"
    by (simp add: dict_keys_get)
  show "fst (client_disconnected sid w) = None"
    using a k by (simp add: client_disconnected_def)
  show "gdb_controllers (snd (client_disconnected sid w)) = dict_pop (gdb_controllers w) sid"
    using a k by (simp add: client_disconnected_def)
  then show "dict_get (gdb_controllers (snd (client_disconnected sid w))) sid = None"
    by simp
  show "exit_calls (snd (client_disconnected sid w)) = exit_calls w @ [pid g]"
    using a k by (simp add: client_disconnected_def)
next
  assume a: "dict_get (gdb_controllers w) sid = Some (Some g) \<and> exit_fault g = Some e"
  then have k: "sid \<in> set (dict_keys (gdb_controllers w))"
    by (simp add: dict_keys_get)
  show "fst (client_disconnected sid w) = Some e"
    using a k by (simp add: client_disconnected_def)
  show "gdb_controllers (snd (client_disconnected sid w)) = gdb_controllers w"
    using a k by (simp add: client_disconnected_def)
  show "exit_calls (snd (client_disconnected sid w)) = exit_calls w @ [pid g]"
    using a k by (simp add: client_disconnected_def)
qed

theorem disconnect_cases_witness:
  "dict_get (gdb_controllers (snd (client_connected spawn_fresh ''A'' linux_world))) ''A''
     = Some (Some (controller_with 1000 []))
 \<and> exit_fault (controller_with 1000 []) = None
 \<and> fst (client_disconnected ''A'' (snd (client_connected spawn_fresh ''A'' linux_world))) = None
 \<and> dict_get (gdb_controllers
      (snd (client_disconnected ''A'' (snd (client_connected spawn_fresh ''A'' linux_world))))) ''A''
     = None
 \<and> exit_calls (snd (client_disconnected ''A'' (snd (client_connected spawn_fresh ''A'' linux_world))))
     = [1000]
 \<and> fst (client_disconnected ''A'' (snd (client_connected spawn_exit_fails ''A'' linux_world)))
     = Some (OtherException ''ProcessLookupError'' ''[Errno 3] No such process'')
 \<and> gdb_controllers (snd (client_disconnected ''A''
        (snd (client_connected spawn_exit_fails ''A'' linux_world))))
     = gdb_controllers (snd (client_connected spawn_exit_fails ''A'' linux_world))
 \<and> client_disconnected ''A''
      (snd (client_disconnected ''A'' (snd (client_connected spawn_fresh ''A'' linux_world))))
     = (None, snd (client_disconnected ''A'' (snd (client_connected spawn_fresh ''A'' linux_world))))"
proof -
  define wa where "wa = snd (client_connected spawn_fresh ''A'' linux_world)"
  define wb where "wb = snd (client_connected spawn_exit_fails ''A'' linux_world)"
  define g where
    "g = (controller_with 1000 [])
           \<lparr>exit_fault := Some (OtherException ''ProcessLookupError'' ''[Errno 3] No such process'')\<rparr>"
  have a1: "dict_get (gdb_controllers wa) ''A'' = Some (Some (controller_with 1000 []))"
    unfolding wa_def by code_simp
  have a2: "exit_fault (controller_with 1000 []) = None"
    by (simp add: controller_with_def)
  have a3: "exit_calls wa = [] \<and> pid (controller_with 1000 []) = 1000"
    unfolding wa_def by code_simp
  have b1: "dict_get (gdb_controllers wb) ''A'' = Some (Some g)"
    unfolding wb_def g_def by code_simp
  have b2: "exit_fault g = Some (OtherException ''ProcessLookupError'' ''[Errno 3] No such process'')"
    by (simp add: g_def)
  have c0: "debug (snd (client_disconnected ''A'' wa)) = False"
    unfolding wa_def by code_simp
  note A = disconnect_cases [of wa "''A''" "controller_with 1000 []" "OtherException [] []"]
  note B = disconnect_cases [of wb "''A''" g "OtherException ''ProcessLookupError'' ''[Errno 3] No such process''"]
  have c1: "dict_get (gdb_controllers (snd (client_disconnected ''A'' wa))) ''A'' = None"
    using A a1 a2 by simp
  note C = disconnect_cases [of "snd (client_disconnected ''A'' wa)" "''A''" g "OtherException [] []"]
  show ?thesis
    unfolding wa_def [symmetric] wb_def [symmetric]
    using A B C a1 a2 a3 b1 b2 c0 c1 by (simp add: log_line_def)
qed

section \<open>The dispatcher: faults\<close>

text \<open>
  Claim C2. The claim says that a fault of the poll of one session is caught and logged
  and neither ends the dispatcher nor keeps another session's response from being
  delivered in the same round. With \<^verbatim>\<open>app.debug\<close> on, the handler's
  \<^verbatim>\<open>dbprint(e)\<close> hands the exception object to \<^verbatim>\<open>' '.join\<close>, which raises
  \<^verbatim>\<open>TypeError\<close> inside the \<^verbatim>\<open>except\<close> block: with sessions \<open>A\<close> (whose poll
  raises) and \<open>B\<close> (one response queued), the round ends with that \<^verbatim>\<open>TypeError\<close>,
  nothing is emitted to \<open>B\<close>, and the task is over.
\<close>

theorem poll_fault_in_debug_mode_ends_dispatcher:
  "dict_keys (gdb_controllers (two_sessions linux_debug_world)) = [''A'', ''B'']
 \<and> map_option (map_option responses)
      (dict_get (gdb_controllers (two_sessions linux_debug_world)) ''B'')
      = Some (Some [Inr (Response ''done'')])
 \<and> fst (tick (two_sessions linux_debug_world))
      = Some (TypeError ''sequence item 0: expected str instance, NoGdbProcessError found'')
 \<and> emitted (snd (tick (two_sessions linux_debug_world)))
      = emitted (two_sessions linux_debug_world)
 \<and> fst (read_and_forward_gdb_output 5 (two_sessions linux_debug_world))
      = Some (TypeError ''sequence item 0: expected str instance, NoGdbProcessError found'')"
  by code_simp

text \<open>
  With \<^verbatim>\<open>app.debug\<close> off the same round completes and the response of \<open>B\<close> is
  delivered; \<^verbatim>\<open>dbprint\<close> prints nothing then, so the fault leaves no trace.
\<close>

lemma poll_fault_without_debug:
  "fst (tick (two_sessions linux_world)) = None
 \<and> emitted (snd (tick (two_sessions linux_world)))
      = emitted (two_sessions linux_world) @ [(''B'', ''gdb_response'', JResponse (Response ''done''))]
 \<and> stdout (snd (tick (two_sessions linux_world))) = []"
  by code_simp

section \<open>The dispatcher: order of delivery\<close>

lemma forwarded_append: "forwarded (xs @ ys) = forwarded xs @ forwarded ys"
  by (induction xs rule: forwarded.induct) simp_all

lemma delivered_stdout [simp]: "delivered c (w\<lparr>stdout := s\<rparr>) = delivered c w"
  by (simp add: delivered_def)

lemma delivered_table [simp]: "delivered c (w\<lparr>gdb_controllers := t\<rparr>) = delivered c w"
  by (simp add: delivered_def)

lemma delivered_emit:
  "delivered c (emit room name p w)
     = delivered c w @ (if room = c \<and> name = ''gdb_response'' then [p] else [])"
  by (simp add: delivered_def emit_def)

lemma emit_table [simp]: "gdb_controllers (emit room name p w) = gdb_controllers w"
  by (simp add: emit_def)

lemma poll_body_other:
  assumes "c \<noteq> k"
  shows "dict_get (gdb_controllers (snd (poll_body k v w))) c = dict_get (gdb_controllers w) c"
    and "delivered c (snd (poll_body k v w)) = delivered c w"
  using assms
  by (simp_all add: poll_body_def get_gdb_response_def delivered_emit Let_def
        split: option.splits list.splits sum.splits)

lemma poll_body_self:
  shows "dict_get (gdb_controllers (snd (poll_body c (Some g) w))) c
           = Some (Some (g\<lparr>responses := drop 1 (responses g)\<rparr>))"
    and "delivered c (snd (poll_body c (Some g) w))
           = delivered c w @ forwarded (take 1 (responses g))"
    and "fst (poll_body c (Some g) w) \<noteq> Inr True"
  by (simp_all add: poll_body_def get_gdb_response_def delivered_emit Let_def
        split: option.splits list.splits sum.splits)

lemma for_items_step:
  assumes "poll_body k v w = (r, w1)"
  shows "for_items ((k, v) # rest) w =
           (case r of
              Inr True \<Rightarrow> (None, w1)
            | Inr False \<Rightarrow> for_items rest w1
            | Inl e \<Rightarrow> if is_Exception e \<and> \<not> debug w1 then for_items rest w1
                       else if is_Exception e
                            then (Some (join_type_error 0 e), w1)
                            else (Some e, w1))"
  using assms by (simp split: sum.splits bool.splits)

lemma poll_body_break: "fst (poll_body k v w) = Inr True \<longleftrightarrow> v = None"
  by (cases v)
     (simp_all add: poll_body_def get_gdb_response_def Let_def split: list.splits sum.splits)

lemma for_items_other:
  assumes "c \<notin> fst ` set its"
  shows "dict_get (gdb_controllers (snd (for_items its w))) c = dict_get (gdb_controllers w) c
       \<and> delivered c (snd (for_items its w)) = delivered c w"
  using assms
proof (induction its arbitrary: w)
  case Nil
  then show ?case by simp
next
  case (Cons kv rest)
  obtain k v where kv: "kv = (k, v)" by (cases kv)
  obtain r w1 where pb: "poll_body k v w = (r, w1)" by (cases "poll_body k v w")
  have ck: "c \<noteq> k" and crest: "c \<notin> fst ` set rest"
    using Cons.prems kv by auto
  have w1: "dict_get (gdb_controllers w1) c = dict_get (gdb_controllers w) c"
           "delivered c w1 = delivered c w"
    using poll_body_other [OF ck, of v w] pb by simp_all
  have ih: "dict_get (gdb_controllers (snd (for_items rest w1))) c = dict_get (gdb_controllers w) c
       \<and> delivered c (snd (for_items rest w1)) = delivered c w"
    using Cons.IH [OF crest, of w1] w1 by simp
  show ?case
    unfolding kv for_items_step [OF pb]
    using w1 ih by (simp split: sum.splits bool.splits)
qed

lemma for_items_self:
  assumes "distinct (map fst its)"
      and "(c, Some g) \<in> set its"
      and "dict_get (gdb_controllers w) c = Some (Some g)"
  shows "\<exists>k\<le>1.
           dict_get (gdb_controllers (snd (for_items its w))) c
             = Some (Some (g\<lparr>responses := drop k (responses g)\<rparr>))
         \<and> delivered c (snd (for_items its w)) = delivered c w @ forwarded (take k (responses g))
         \<and> (fst (for_items its w) = None \<and> None \<notin> snd ` set its \<longrightarrow> k = 1)"
  using assms
proof (induction its arbitrary: w)
  case Nil
  then show ?case by simp
next
  case (Cons kv rest)
  obtain k v where kv: "kv = (k, v)" by (cases kv)
  obtain r w1 where pb: "poll_body k v w = (r, w1)" by (cases "poll_body k v w")
  show ?case
  proof (cases "k = c")
    case True
    have notin: "c \<notin> fst ` set rest"
      using Cons.prems(1) kv True by simp
    then have v: "v = Some g"
      using Cons.prems(2) kv True by (auto simp: image_iff)
    have w1: "dict_get (gdb_controllers w1) c = Some (Some (g\<lparr>responses := drop 1 (responses g)\<rparr>))"
             "delivered c w1 = delivered c w @ forwarded (take 1 (responses g))"
             "r \<noteq> Inr True"
      using poll_body_self [of c g w] pb True v by simp_all
    have rest: "dict_get (gdb_controllers (snd (for_items rest w1))) c
                  = Some (Some (g\<lparr>responses := drop 1 (responses g)\<rparr>))"
               "delivered c (snd (for_items rest w1))
                  = delivered c w @ forwarded (take 1 (responses g))"
      using for_items_other [OF notin, of w1] w1 by simp_all
    have "dict_get (gdb_controllers (snd (for_items (kv # rest) w))) c
             = Some (Some (g\<lparr>responses := drop 1 (responses g)\<rparr>))
         \<and> delivered c (snd (for_items (kv # rest) w))
             = delivered c w @ forwarded (take 1 (responses g))"
      unfolding kv for_items_step [OF pb]
      using w1 rest by (simp split: sum.splits bool.splits)
    then show ?thesis by (intro exI [of _ 1]) simp
  next
    case False
    then have ck: "c \<noteq> k" by simp
    have mem: "(c, Some g) \<in> set rest" and dist: "distinct (map fst rest)"
      using Cons.prems(1,2) kv False by auto
    have w1: "dict_get (gdb_controllers w1) c = Some (Some g)"
             "delivered c w1 = delivered c w"
      using poll_body_other [OF ck, of v w] pb Cons.prems(3) by simp_all
    from Cons.IH [OF dist mem w1(1)] obtain j where j: "j \<le> 1"
      "dict_get (gdb_controllers (snd (for_items rest w1))) c
             = Some (Some (g\<lparr>responses := drop j (responses g)\<rparr>))"
      "delivered c (snd (for_items rest w1)) = delivered c w @ forwarded (take j (responses g))"
      "fst (for_items rest w1) = None \<and> None \<notin> snd ` set rest \<longrightarrow> j = 1"
      using w1(2) by auto
    have stop: "dict_get (gdb_controllers w1) c = Some (Some (g\<lparr>responses := drop 0 (responses g)\<rparr>))"
               "delivered c w1 = delivered c w @ forwarded (take 0 (responses g))"
      using w1 by simp_all
    have vr: "r = Inr True \<longleftrightarrow> v = None"
      using poll_body_break [of k v w] pb by simp
    have go: ?thesis if "for_items (kv # rest) w = for_items rest w1"
      using that j kv by (intro exI [of _ j]) auto
    have halt: ?thesis if "for_items (kv # rest) w = (x, w1)" and "x = None \<longrightarrow> v = None" for x
      using that stop kv by (intro exI [of _ 0]) auto
    have fi: "for_items (kv # rest) w =
           (case r of
              Inr True \<Rightarrow> (None, w1)
            | Inr False \<Rightarrow> for_items rest w1
            | Inl e \<Rightarrow> if is_Exception e \<and> \<not> debug w1 then for_items rest w1
                       else if is_Exception e
                            then (Some (join_type_error 0 e), w1)
                            else (Some e, w1))"
      unfolding kv by (rule for_items_step [OF pb])
    show ?thesis
    proof (cases r)
      case (Inl e)
      show ?thesis
      proof (cases "is_Exception e \<and> \<not> debug w1")
        case True
        then show ?thesis using fi Inl by (intro go) simp
      next
        case False
        then have "for_items (kv # rest) w
                     = (Some (if is_Exception e
                              then join_type_error 0 e else e), w1)"
          using fi Inl by auto
        then show ?thesis by (rule halt) simp
      qed
    next
      case (Inr b)
      show ?thesis
      proof (cases b)
        case True
        then have "for_items (kv # rest) w = (None, w1)" "v = None"
          using fi Inr vr by simp_all
        then show ?thesis by (intro halt [of None]) simp_all
      next
        case False
        then show ?thesis using fi Inr by (intro go) simp
      qed
    qed
  qed
qed

lemma update_values: "snd ` set (AList.update k v al) \<subseteq> insert v (snd ` set al)"
  by (induction al) auto

lemma poll_body_keys:
  assumes "k \<in> set (dict_keys (gdb_controllers w))"
  shows "dict_keys (gdb_controllers (snd (poll_body k v w))) = dict_keys (gdb_controllers w)"
  using assms
  by (simp add: poll_body_def get_gdb_response_def Let_def dict_keys_def dict_set_def
        update_keys split: option.splits list.splits sum.splits)

lemma poll_body_values:
  assumes "None \<notin> snd ` set (gdb_controllers w)"
  shows "None \<notin> snd ` set (gdb_controllers (snd (poll_body k v w)))"
proof -
  have "None \<notin> snd ` set (dict_set (gdb_controllers w) k (Some g'))" for g'
    using assms update_values [of k "Some g'" "gdb_controllers w"]
    by (auto simp add: dict_set_def)
  then show ?thesis
    using assms
    by (simp add: poll_body_def get_gdb_response_def Let_def
          split: option.splits list.splits sum.splits)
qed

lemma for_items_invariant:
  assumes "fst ` set its \<subseteq> set (dict_keys (gdb_controllers w))"
  shows "dict_keys (gdb_controllers (snd (for_items its w))) = dict_keys (gdb_controllers w)
       \<and> (None \<notin> snd ` set (gdb_controllers w)
            \<longrightarrow> None \<notin> snd ` set (gdb_controllers (snd (for_items its w))))"
  using assms
proof (induction its arbitrary: w)
  case Nil
  then show ?case by simp
next
  case (Cons kv rest)
  obtain k v where kv: "kv = (k, v)" by (cases kv)
  obtain r w1 where pb: "poll_body k v w = (r, w1)" by (cases "poll_body k v w")
  have k: "k \<in> set (dict_keys (gdb_controllers w))"
    using Cons.prems kv by simp
  have keys: "dict_keys (gdb_controllers w1) = dict_keys (gdb_controllers w)"
    using poll_body_keys [OF k, of v] pb by simp
  have vals: "None \<notin> snd ` set (gdb_controllers w) \<longrightarrow> None \<notin> snd ` set (gdb_controllers w1)"
    using poll_body_values [of w k v] pb by simp
  have "fst ` set rest \<subseteq> set (dict_keys (gdb_controllers w1))"
    using Cons.prems keys by simp
  from Cons.IH [OF this] keys vals
  have ih: "dict_keys (gdb_controllers (snd (for_items rest w1))) = dict_keys (gdb_controllers w)
       \<and> (None \<notin> snd ` set (gdb_controllers w)
            \<longrightarrow> None \<notin> snd ` set (gdb_controllers (snd (for_items rest w1))))"
    by simp
  show ?case
    unfolding kv for_items_step [OF pb]
    using keys vals ih by (simp split: sum.splits bool.splits)
qed

lemma tick_invariant:
  "dict_keys (gdb_controllers (snd (tick w))) = dict_keys (gdb_controllers w)
 \<and> (None \<notin> snd ` set (gdb_controllers w)
      \<longrightarrow> None \<notin> snd ` set (gdb_controllers (snd (tick w))))"
  unfolding tick_def by (rule for_items_invariant) (simp add: dict_keys_def)

lemma tick_self:
  assumes "distinct (dict_keys (gdb_controllers w))"
      and "dict_get (gdb_controllers w) c = Some (Some g)"
  shows "\<exists>k\<le>1.
           dict_get (gdb_controllers (snd (tick w))) c
             = Some (Some (g\<lparr>responses := drop k (responses g)\<rparr>))
         \<and> delivered c (snd (tick w)) = delivered c w @ forwarded (take k (responses g))
         \<and> (fst (tick w) = None \<and> None \<notin> snd ` set (gdb_controllers w) \<longrightarrow> k = 1)"
proof -
  have "(c, Some g) \<in> set (gdb_controllers w)"
    using assms(2) by (simp add: dict_get_def map_of_SomeD)
  then show ?thesis
    unfolding tick_def
    using for_items_self [of "gdb_controllers w" c g w] assms by (simp add: dict_keys_def)
qed

lemma run_self:
  assumes "distinct (dict_keys (gdb_controllers w))"
      and "dict_get (gdb_controllers w) c = Some (Some g)"
  shows "\<exists>k\<le>n.
           dict_get (gdb_controllers (snd (read_and_forward_gdb_output n w))) c
             = Some (Some (g\<lparr>responses := drop k (responses g)\<rparr>))
         \<and> delivered c (snd (read_and_forward_gdb_output n w))
             = delivered c w @ forwarded (take k (responses g))
         \<and> (fst (read_and_forward_gdb_output n w) = None
              \<and> None \<notin> snd ` set (gdb_controllers w) \<longrightarrow> k = n)"
  using assms
proof (induction n arbitrary: w g)
  case 0
  then show ?case by simp
next
  case (Suc n)
  obtain x w1 where t: "tick w = (x, w1)" by (cases "tick w")
  from tick_self [OF Suc.prems] t obtain k1 where k1: "k1 \<le> 1"
      "dict_get (gdb_controllers w1) c = Some (Some (g\<lparr>responses := drop k1 (responses g)\<rparr>))"
      "delivered c w1 = delivered c w @ forwarded (take k1 (responses g))"
      "x = None \<and> None \<notin> snd ` set (gdb_controllers w) \<longrightarrow> k1 = 1"
    by auto
  show ?case
  proof (cases x)
    case (Some e)
    then have "read_and_forward_gdb_output (Suc n) w = (Some e, w1)"
      using t by simp
    then show ?thesis
      using k1 by (intro exI [of _ k1]) auto
  next
    case None
    have inv: "distinct (dict_keys (gdb_controllers w1))"
         "None \<notin> snd ` set (gdb_controllers w) \<longrightarrow> None \<notin> snd ` set (gdb_controllers w1)"
      using tick_invariant [of w] t Suc.prems(1) by simp_all
    from Suc.IH [OF inv(1) k1(2)] obtain k2 where k2: "k2 \<le> n"
      "dict_get (gdb_controllers (snd (read_and_forward_gdb_output n w1))) c
         = Some (Some (g\<lparr>responses := drop (k1 + k2) (responses g)\<rparr>))"
      "delivered c (snd (read_and_forward_gdb_output n w1))
         = delivered c w1 @ forwarded (take k2 (drop k1 (responses g)))"
      "fst (read_and_forward_gdb_output n w1) = None
         \<and> None \<notin> snd ` set (gdb_controllers w1) \<longrightarrow> k2 = n"
      by (auto simp add: add.commute)
    have run: "read_and_forward_gdb_output (Suc n) w = read_and_forward_gdb_output n w1"
      using t None by simp
    have "forwarded (take (k1 + k2) (responses g))
            = forwarded (take k1 (responses g)) @ forwarded (take k2 (drop k1 (responses g)))"
      by (simp add: take_add forwarded_append)
    then show ?thesis
      unfolding run
      using k1 k2 inv None by (intro exI [of _ "k1 + k2"]) auto
  qed
qed

lemma poll_body_emits:
  assumes "responses g = Inr r # rs" and "truthy r"
  shows "emitted (snd (poll_body c (Some g) w)) = emitted w @ [(c, ''gdb_response'', JResponse r)]"
  using assms by (simp add: poll_body_def get_gdb_response_def emit_def Let_def)

text \<open>
  Claim C3. Take a session \<open>c\<close> of a table with distinct keys and let the dispatcher
  run for at most \<open>n\<close> rounds. It has then polled the process of \<open>c\<close> some \<open>k\<close>
  times, at most once per round, and the \<^verbatim>\<open>gdb_response\<close> events sent to the room
  of \<open>c\<close> in that time are exactly the truthy values among the first \<open>k\<close> poll
  results, one event for each, in the order in which the process gave them. When all
  \<open>n\<close> rounds completed and no value of the table is \<^verbatim>\<open>None\<close>, \<open>k\<close> is \<open>n\<close>.
  Each value is sent in the loop iteration that read it: the body of the iteration for
  \<open>c\<close>, whose poll returns a truthy value, appends that one event to what was emitted.
\<close>

theorem responses_forwarded_in_order:
  assumes "distinct (dict_keys (gdb_controllers w))"
      and "dict_get (gdb_controllers w) c = Some (Some g)"
  shows "(\<exists>k\<le>n.
            dict_get (gdb_controllers (snd (read_and_forward_gdb_output n w))) c
              = Some (Some (g\<lparr>responses := drop k (responses g)\<rparr>))
          \<and> delivered c (snd (read_and_forward_gdb_output n w))
              = delivered c w @ forwarded (take k (responses g))
          \<and> (fst (read_and_forward_gdb_output n w) = None
               \<and> None \<notin> snd ` set (gdb_controllers w) \<longrightarrow> k = n))
       \<and> (\<forall>r rs. responses g = Inr r # rs \<and> truthy r \<longrightarrow>
            emitted (snd (poll_body c (Some g) w))
              = emitted w @ [(c, ''gdb_response'', JResponse r)])"
  using run_self [OF assms, of n] poll_body_emits [of g _ _ c w] by blast

theorem responses_forwarded_in_order_witness:
  "distinct (dict_keys (gdb_controllers scripted_sessions))
 \<and> dict_get (gdb_controllers scripted_sessions) ''A''
      = Some (Some (controller_with 1000
                  [Inr (Response ''r1''), Inr NoResponse,
                   Inl (OtherException ''OSError'' ''select failed''), Inr (Response ''r2'')]))
 \<and> delivered ''A'' (snd (read_and_forward_gdb_output 4 scripted_sessions))
      = [JResponse (Response ''r1''), JResponse (Response ''r2'')]
 \<and> emitted (snd (poll_body ''A'' (Some (controller_with 1000
                  [Inr (Response ''r1''), Inr NoResponse,
                   Inl (OtherException ''OSError'' ''select failed''), Inr (Response ''r2'')])) scripted_sessions))
      = emitted scripted_sessions @ [(''A'', ''gdb_response'', JResponse (Response ''r1''))]"
proof -
  have h1: "distinct (dict_keys (gdb_controllers scripted_sessions))"
    by code_simp
  have h2: "dict_get (gdb_controllers scripted_sessions) ''A''
      = Some (Some (controller_with 1000
                  [Inr (Response ''r1''), Inr NoResponse,
                   Inl (OtherException ''OSError'' ''select failed''), Inr (Response ''r2'')]))"
    by code_simp
  have h3: "fst (read_and_forward_gdb_output 4 scripted_sessions) = None"
    by code_simp
  have h4: "None \<notin> snd ` set (gdb_controllers scripted_sessions)"
    by code_simp
  have h5: "delivered ''A'' scripted_sessions = []"
    by code_simp
  show ?thesis
    using responses_forwarded_in_order [OF h1 h2, of 4] h1 h2 h3 h4 h5
    by (auto simp add: controller_with_def)
qed

section \<open>Starting the reader thread\<close>

text \<open>
  Only the last step of the connect handler touches the thread and the count of started
  tasks; it starts a task only when \<^verbatim>\<open>_gdb_state\<close> holds none, and stores the new
  one in the same step. So for requests that are handled one after another, in any order
  and number, at most one reader task is ever started. What happens when two connect
  handlers overlap between the test and the assignment is not a question of this model.
\<close>

lemma reader_state_simps [simp]:
  "reader_state (w\<lparr>stdout := a\<rparr>) = reader_state w"
  "reader_state (w\<lparr>emitted := b\<rparr>) = reader_state w"
  "reader_state (w\<lparr>gdb_controllers := c\<rparr>) = reader_state w"
  "reader_state (w\<lparr>spawned := d\<rparr>) = reader_state w"
  "reader_state (w\<lparr>exit_calls := e\<rparr>) = reader_state w"
  "reader_state (w\<lparr>DEFAULT_GDB_ARGS := f\<rparr>) = reader_state w"
  "reader_state (w\<lparr>DEFAULT_LLDB_ARGS := h\<rparr>) = reader_state w"
  by (simp_all add: reader_state_def)

lemma new_controller_reader:
  "reader_state (snd (new_controller spawn sid w)) = reader_state w"
  by (simp add: new_controller_def Let_def gdb_args_append_def split: option.splits sum.splits)

lemma emit_gdb_pid_reader:
  "reader_state (snd (emit_gdb_pid sid w)) = reader_state w"
  by (simp add: emit_gdb_pid_def emit_def split: option.splits)

lemma andThen_reader:
  assumes "reader_state (snd r) = x" and "\<And>w. reader_state (snd (f w)) = reader_state w"
  shows "reader_state (snd (andThen r f)) = x"
  using assms by (cases r) (auto simp add: andThen_def split: option.splits)

lemma session_reader:
  "reader_state (snd (client_connected_session spawn sid w)) = reader_state w"
  unfolding client_connected_session_def
  by (intro andThen_reader) (simp_all add: new_controller_reader emit_gdb_pid_reader)

lemma run_gdb_command_reader:
  "reader_state (snd (run_gdb_command message sid w)) = reader_state w"
  by (simp add: run_gdb_command_def gdb_write_def emit_def Let_def split: option.splits)

lemma client_disconnected_reader:
  "reader_state (snd (client_disconnected sid w)) = reader_state w"
  by (simp add: client_disconnected_def Let_def split: option.splits)

lemma poll_body_reader:
  "reader_state (snd (poll_body k v w)) = reader_state w"
  by (simp add: poll_body_def get_gdb_response_def emit_def Let_def
        split: option.splits list.splits sum.splits)

lemma for_items_reader:
  "reader_state (snd (for_items its w)) = reader_state w"
proof (induction its arbitrary: w)
  case Nil
  then show ?case by simp
next
  case (Cons kv rest)
  obtain k v where kv: "kv = (k, v)" by (cases kv)
  obtain r w1 where pb: "poll_body k v w = (r, w1)" by (cases "poll_body k v w")
  have "reader_state w1 = reader_state w"
    using poll_body_reader [of k v w] pb by simp
  then show ?case
    unfolding kv for_items_step [OF pb]
    using Cons.IH [of w1] by (simp split: sum.splits bool.splits)
qed

lemma single_flight_fields:
  "reader_state w' = reader_state w \<Longrightarrow> single_flight w' = single_flight w"
  by (simp add: reader_state_def single_flight_def)

lemma reader_single_flight:
  "single_flight w \<Longrightarrow> single_flight (snd (client_connected_reader w))"
  by (auto simp add: client_connected_reader_def single_flight_def)

lemma handle_single_flight:
  assumes "single_flight w"
  shows "single_flight (handle spawn w rq)"
proof (cases rq)
  case (Connect sid)
  obtain x w1 where s: "client_connected_session spawn sid w = (x, w1)"
    by (cases "client_connected_session spawn sid w")
  have w1: "single_flight w1"
    using session_reader [of spawn sid w] s assms single_flight_fields [of w1 w] by simp
  show ?thesis
    using Connect s w1 reader_single_flight [of w1]
    by (cases x) (simp_all add: handle_def client_connected_def)
next
  case (RunCommand sid message)
  then show ?thesis
    using assms single_flight_fields [OF run_gdb_command_reader [of message sid w]]
    by (simp add: handle_def)
next
  case (Disconnect sid)
  then show ?thesis
    using assms single_flight_fields [OF client_disconnected_reader [of sid w]]
    by (simp add: handle_def)
next
  case Round
  then show ?thesis
    using assms single_flight_fields [OF for_items_reader [of "gdb_controllers w" w]]
    by (simp add: handle_def tick_def)
qed

lemma serve_single_flight:
  "single_flight w \<Longrightarrow> single_flight (serve spawn rqs w)"
  unfolding serve_def
  by (induction rqs arbitrary: w) (simp_all add: handle_single_flight)

lemma reader_started_at_most_once_in_sequence:
  "started (serve spawn rqs (initial_world platform gdb_path lldb dbg)) \<le> 1"
proof -
  have "single_flight (initial_world platform gdb_path lldb dbg)"
    by (simp add: single_flight_def initial_world_def)
  then show ?thesis
    using serve_single_flight [of _ spawn rqs] by (simp add: single_flight_def)
qed

end
